theory Spec2Isabelle
  imports Main
begin

section \<open>EcoDrive Query API: the conversation-routing pipeline\<close>

text \<open>
  A shallow embedding of \<^verbatim>\<open>app/main.py\<close> (\<^verbatim>\<open>process_query\<close>,
  \<^verbatim>\<open>delete_conversation\<close>) and of the service methods it calls
  (\<^verbatim>\<open>app/services/llm_service.py\<close>, \<^verbatim>\<open>rag_service.py\<close>,
  \<^verbatim>\<open>external_api.py\<close>).

  Python strings are byte lists (UTF-8); dictionaries of the conversation store are maps;
  Python list objects live in an explicit heap, because the history list is shared by
  reference between the store, the router and the services, and the services append to it.
  The outcome of every call that leaves the process (OpenAI, HTTP, \<^verbatim>\<open>uuid4\<close>) is read
  from a \<open>world\<close> record, one field per call site, so a theorem for all worlds covers every
  behaviour of those services. Every service call is written to a log with its arguments and
  its result, in the order the calls return.

  A cycle is modelled as running alone: no other request is served while it waits for a
  service. The validation of the request fields (non-empty query and phone) happens before
  \<^verbatim>\<open>process_query\<close> is entered and is not part of the model.
\<close>

subsection \<open>Data model\<close>

type_synonym addr = nat

text \<open>A message dictionary \<^verbatim>\<open>{"role": ..., "content": ...}\<close>. The content of an assistant
  turn is what the completion returned, which the OpenAI client types as an optional string.\<close>

record turn =
  role :: string
  content :: "string option"

text \<open>What \<^verbatim>\<open>classify_intent\<close> can return: the value stored under \<^verbatim>\<open>"intent"\<close> in the
  JSON object, which is a string, \<^verbatim>\<open>None\<close> (JSON null) or some other JSON value.\<close>

datatype pyval = PyStr string | PyNone | PyOther

text \<open>\<^verbatim>\<open>app/models/schemas.py\<close>\<close>

record UserData =
  ud_id :: int
  ud_phone :: string
  ud_name :: string
  ud_empresa :: string
  ud_cb_intent :: string

record QueryRequest =
  req_query :: string
  req_phone :: string
  req_conversation_id :: "string option"

record QueryResponse =
  resp_answer :: string
  resp_intent :: "string option"
  resp_conversation_id :: "string option"

datatype py_exception = ValidationError string

datatype http_exception = HTTPException nat string

text \<open>Outcome of \<^verbatim>\<open>client.chat.completions.create(...)\<close> followed by
  \<^verbatim>\<open>response.choices[0].message.content\<close>: an exception, or the content.\<close>

datatype completion = Raised | Content "string option"

text \<open>Outcome of the classifier's completion followed by \<^verbatim>\<open>json.loads\<close>: an exception
  anywhere on the way, a JSON value that is not an object, or a JSON object (the dictionary).\<close>

datatype json_reply = JRaised | JNonObject | JObject "string \<Rightarrow> pyval option"

text \<open>The log of service calls: each entry holds the arguments of the call and, last, its
  result. The entries of the methods that wrap one chat completion in
  \<^verbatim>\<open>try\<close>/\<^verbatim>\<open>except\<close> with a static fallback also hold the outcome of that completion,
  before the result.\<close>

datatype event =
    GetUserByPhone string UserData
  | ClassifyIntent string "addr option" pyval
  | GenerateGreeting string string "addr option" completion "string option"
  | ImproveQueryForRag string "addr option" completion "string option"
  | RetrieveContext "string option" string
  | GenerateRagResponse string string "addr option" completion "string option"
  | GenerateAttendanceResponse string "addr option" completion "string option"
  | NotifyChatwootLabel string bool
  | GeneratePraiseResponse string "addr option" completion "string option"
  | GenerateOtherResponse string "addr option" completion "string option"

text \<open>The services outside the process. \<open>user_by_phone\<close> is \<open>None\<close> when the HTTP call or the
  decoding of its answer raises, and the decoded \<^verbatim>\<open>UserData\<close> otherwise;
  \<open>chatwoot_label_ok\<close> is \<open>False\<close> when the notification request raises. \<open>rag_reply\<close> takes
  the query and the context next to the messages, since the system prompt of that call is
  built from them by \<^verbatim>\<open>str.replace\<close>. \<open>validation_error_str\<close> is pydantic's rendering
  \<^verbatim>\<open>str(e)\<close> of the validation error of \<^verbatim>\<open>QueryResponse\<close>, and \<open>dataset_ids\<close> is
  \<^verbatim>\<open>RAGService.dataset_ids\<close>.\<close>

record world =
  uuid4 :: string
  user_by_phone :: "string \<Rightarrow> UserData option"
  classifier_reply :: "turn list \<Rightarrow> json_reply"
  greeting_reply :: "turn list \<Rightarrow> completion"
  attendance_reply :: "turn list \<Rightarrow> completion"
  praise_reply :: "turn list \<Rightarrow> completion"
  other_reply :: "turn list \<Rightarrow> completion"
  improve_reply :: "turn list \<Rightarrow> completion"
  rag_reply :: "string \<Rightarrow> string \<Rightarrow> turn list \<Rightarrow> completion"
  chatwoot_label_ok :: "string \<Rightarrow> bool"
  validation_error_str :: "string option \<Rightarrow> pyval \<Rightarrow> string"
  dataset_ids :: "string list"

text \<open>The process state: the list objects (\<open>heap\<close>, with \<open>lim\<close> the next free address), the
  module-level dictionary \<^verbatim>\<open>conversations\<close>, which holds references to list objects, and
  the log of service calls.\<close>

record state =
  heap :: "addr \<Rightarrow> turn list"
  lim :: addr
  conversations :: "string \<Rightarrow> addr option"
  calls :: "event list"

definition initial_state :: state where
  "initial_state = \<lparr>heap = (\<lambda>_. []), lim = 0, conversations = Map.empty, calls = []\<rparr>"

subsection \<open>List objects\<close>

text \<open>The list display \<^verbatim>\<open>[]\<close>: a new, empty list object.\<close>

definition new_list :: "state \<Rightarrow> addr \<times> state" where
  "new_list s = (lim s, s\<lparr>heap := (heap s)(lim s := []), lim := Suc (lim s)\<rparr>)"

text \<open>\<^verbatim>\<open>xs.append(t)\<close>, in place.\<close>

definition list_append :: "addr \<Rightarrow> turn \<Rightarrow> state \<Rightarrow> state" where
  "list_append a t s = s\<lparr>heap := (heap s)(a := heap s a @ [t])\<rparr>"

text \<open>\<^verbatim>\<open>history or []\<close>: the object \<^verbatim>\<open>history\<close> itself when it is a non-empty list,
  a new list when it is \<^verbatim>\<open>None\<close> or empty.\<close>

definition history_or_new :: "addr option \<Rightarrow> state \<Rightarrow> addr \<times> state" where
  "history_or_new history s =
     (case history of
        None \<Rightarrow> new_list s
      | Some a \<Rightarrow> if heap s a \<noteq> [] then (a, s) else new_list s)"

definition user_message :: "string \<Rightarrow> turn" where
  "user_message query = \<lparr>role = ''user'', content = Some query\<rparr>"

definition assistant_message :: "string option \<Rightarrow> turn" where
  "assistant_message answer = \<lparr>role = ''assistant'', content = answer\<rparr>"

definition record_call :: "event \<Rightarrow> state \<Rightarrow> state" where
  "record_call e s = s\<lparr>calls := calls s @ [e]\<rparr>"

subsection \<open>\<^verbatim>\<open>ExternalAPIService\<close>\<close>

definition default_UserData :: UserData where
  "default_UserData = \<lparr>ud_id = 0, ud_phone = [], ud_name = [], ud_empresa = [], ud_cb_intent = []\<rparr>"

definition get_user_by_phone :: "world \<Rightarrow> string \<Rightarrow> state \<Rightarrow> UserData \<times> state" where
  "get_user_by_phone w phone s =
     (let r = (case user_by_phone w phone of None \<Rightarrow> default_UserData | Some u \<Rightarrow> u)
      in (r, record_call (GetUserByPhone phone r) s))"

definition notify_chatwoot_label :: "world \<Rightarrow> string \<Rightarrow> state \<Rightarrow> bool \<times> state" where
  "notify_chatwoot_label w conversation_id s =
     (let r = (if chatwoot_label_ok w conversation_id then True else False)
      in (r, record_call (NotifyChatwootLabel conversation_id r) s))"

subsection \<open>\<^verbatim>\<open>LLMService\<close>\<close>

definition classify_intent :: "world \<Rightarrow> string \<Rightarrow> addr option \<Rightarrow> state \<Rightarrow> pyval \<times> state" where
  "classify_intent w query history s =
     (let (messages, s1) = history_or_new history s;
          s2 = list_append messages (user_message query) s1;
          r = (case classifier_reply w (heap s2 messages) of
                 JRaised \<Rightarrow> PyStr ''outros''
               | JNonObject \<Rightarrow> PyStr ''outros''
               | JObject result \<Rightarrow>
                   (case result ''intent'' of None \<Rightarrow> PyStr ''outros'' | Some v \<Rightarrow> v))
      in (r, record_call (ClassifyIntent query history r) s2))"

definition greeting_fallback :: string where
  "greeting_fallback = ''Hola! '' @ [CHR 0xF0, CHR 0x9F, CHR 0x98, CHR 0x8A]
     @ '' Soy Rodrigo de EcoDrive. '' @ [CHR 0xC2, CHR 0xBF] @ ''C'' @ [CHR 0xC3, CHR 0xB3]
     @ ''mo puedo ayudarte?''"

definition generate_greeting ::
  "world \<Rightarrow> string \<Rightarrow> string \<Rightarrow> addr option \<Rightarrow> state \<Rightarrow> string option \<times> state" where
  "generate_greeting w query user_name history s =
     (let (messages, s1) = history_or_new history s;
          s2 = list_append messages (user_message query) s1;
          c = greeting_reply w (heap s2 messages);
          r = (case c of Raised \<Rightarrow> Some greeting_fallback | Content x \<Rightarrow> x)
      in (r, record_call (GenerateGreeting query user_name history c r) s2))"

definition attendance_fallback :: string where
  "attendance_fallback = ''D'' @ [CHR 0xC3, CHR 0xA9]
     @ ''jame conectarte con un asesor humano. Puedes comunicarte al +56 9 5008 0442 ''
     @ [CHR 0xF0, CHR 0x9F, CHR 0x98, CHR 0x8A]"

definition generate_attendance_response ::
  "world \<Rightarrow> string \<Rightarrow> addr option \<Rightarrow> state \<Rightarrow> string option \<times> state" where
  "generate_attendance_response w query history s =
     (let (messages, s1) = history_or_new history s;
          s2 = list_append messages (user_message query) s1;
          c = attendance_reply w (heap s2 messages);
          r = (case c of Raised \<Rightarrow> Some attendance_fallback | Content x \<Rightarrow> x)
      in (r, record_call (GenerateAttendanceResponse query history c r) s2))"

definition praise_fallback :: string where
  "praise_fallback = [CHR 0xC2, CHR 0xA1] @ ''Muchas gracias! ''
     @ [CHR 0xF0, CHR 0x9F, CHR 0x98, CHR 0x8A] @ '' Estamos aqu'' @ [CHR 0xC3, CHR 0xAD]
     @ '' para ayudarte siempre.''"

definition generate_praise_response ::
  "world \<Rightarrow> string \<Rightarrow> addr option \<Rightarrow> state \<Rightarrow> string option \<times> state" where
  "generate_praise_response w query history s =
     (let (messages, s1) = history_or_new history s;
          s2 = list_append messages (user_message query) s1;
          c = praise_reply w (heap s2 messages);
          r = (case c of Raised \<Rightarrow> Some praise_fallback | Content x \<Rightarrow> x)
      in (r, record_call (GeneratePraiseResponse query history c r) s2))"

definition other_fallback :: string where
  "other_fallback = ''Disculpa, no puedo ayudarte con eso. '' @ [CHR 0xC2, CHR 0xBF]
     @ ''Te gustar'' @ [CHR 0xC3, CHR 0xAD] @ ''a que te conecte con un asesor humano? ''
     @ [CHR 0xF0, CHR 0x9F, CHR 0x98, CHR 0x8A]"

definition generate_other_response ::
  "world \<Rightarrow> string \<Rightarrow> addr option \<Rightarrow> state \<Rightarrow> string option \<times> state" where
  "generate_other_response w query history s =
     (let (messages, s1) = history_or_new history s;
          s2 = list_append messages (user_message query) s1;
          c = other_reply w (heap s2 messages);
          r = (case c of Raised \<Rightarrow> Some other_fallback | Content x \<Rightarrow> x)
      in (r, record_call (GenerateOtherResponse query history c r) s2))"

text \<open>On failure the reformulator returns the original query.\<close>

definition improve_query_for_rag ::
  "world \<Rightarrow> string \<Rightarrow> addr option \<Rightarrow> state \<Rightarrow> string option \<times> state" where
  "improve_query_for_rag w query history s =
     (let (messages, s1) = history_or_new history s;
          s2 = list_append messages (user_message query) s1;
          c = improve_reply w (heap s2 messages);
          r = (case c of Raised \<Rightarrow> Some query | Content x \<Rightarrow> x)
      in (r, record_call (ImproveQueryForRag query history c r) s2))"

subsection \<open>\<^verbatim>\<open>RAGService\<close>\<close>

text \<open>Decimal rendering of \<^verbatim>\<open>len(self.dataset_ids)\<close> in the f-string.\<close>

definition digit_char :: "nat \<Rightarrow> char" where
  "digit_char d = char_of (48 + d)"

function str_nat :: "nat \<Rightarrow> string" where
  "str_nat n = (if n < 10 then [digit_char n] else str_nat (n div 10) @ [digit_char (n mod 10)])"
  by pat_completeness auto
termination
  by (relation "measure id") auto

text \<open>An f-string renders \<^verbatim>\<open>None\<close> as the text \<^verbatim>\<open>None\<close>.\<close>

definition format_str :: "string option \<Rightarrow> string" where
  "format_str v = (case v of None \<Rightarrow> ''None'' | Some x \<Rightarrow> x)"

text \<open>The placeholder retrieval: a fixed text around the query and the number of datasets.\<close>

definition retrieve_context :: "world \<Rightarrow> string option \<Rightarrow> state \<Rightarrow> string \<times> state" where
  "retrieve_context w query s =
     (let context =
            [CHR 0x0A] @ ''[NOTA: Esta '' @ [CHR 0xE2, CHR 0x88, CHR 0x9A, CHR 0xC2, CHR 0xA9]
          @ '' uma implementa''
          @ [CHR 0xE2, CHR 0x88, CHR 0x9A, CHR 0xC3, CHR 0x9F, CHR 0xE2, CHR 0x88, CHR 0x9A,
             CHR 0xC2, CHR 0xA3]
          @ ''o placeholder. Integre com seu banco de dados vetorial]'' @ [CHR 0x0A, CHR 0x0A]
          @ ''Query: '' @ format_str query @ [CHR 0x0A, CHR 0x0A]
          @ ''Para implementar a busca real:'' @ [CHR 0x0A]
          @ ''1. Use OpenAI embeddings para vetorizar a query'' @ [CHR 0x0A]
          @ ''2. Busque no seu vector store (Pinecone, Weaviate, ChromaDB, etc.)'' @ [CHR 0x0A]
          @ ''3. Opcionalmente, use Cohere rerank para melhorar os resultados'' @ [CHR 0x0A]
          @ ''4. Retorne os documentos relevantes'' @ [CHR 0x0A, CHR 0x0A]
          @ ''Datasets configurados: '' @ str_nat (length (dataset_ids w)) @ [CHR 0x0A]
      in (context, record_call (RetrieveContext query context) s))"

definition rag_fallback :: string where
  "rag_fallback = ''Disculpa, tuve un problema al procesar tu consulta. ''
     @ [CHR 0xC2, CHR 0xAC, CHR 0xC3, CHR 0xB8] @ ''Podr''
     @ [CHR 0xE2, CHR 0x88, CHR 0x9A, CHR 0xE2, CHR 0x89, CHR 0xA0]
     @ ''as intentarlo nuevamente? ''
     @ [CHR 0xEF, CHR 0xA3, CHR 0xBF, CHR 0xC3, CHR 0xBC, CHR 0xC3, CHR 0xB2, CHR 0xC3, CHR 0xA4]"

definition generate_rag_response ::
  "world \<Rightarrow> string \<Rightarrow> string \<Rightarrow> addr option \<Rightarrow> state \<Rightarrow> string option \<times> state" where
  "generate_rag_response w query context history s =
     (let (messages, s1) = history_or_new history s;
          s2 = list_append messages (user_message query) s1;
          c = rag_reply w query context (heap s2 messages);
          r = (case c of Raised \<Rightarrow> Some rag_fallback | Content x \<Rightarrow> x)
      in (r, record_call (GenerateRagResponse query context history c r) s2))"

subsection \<open>\<^verbatim>\<open>process_query\<close>\<close>

text \<open>\<^verbatim>\<open>request.conversation_id or str(uuid.uuid4())\<close>: \<^verbatim>\<open>None\<close> and the empty string are
  both false.\<close>

definition resolve_conversation_id :: "world \<Rightarrow> QueryRequest \<Rightarrow> string" where
  "resolve_conversation_id w request =
     (case req_conversation_id request of
        None \<Rightarrow> uuid4 w
      | Some c \<Rightarrow> if c \<noteq> [] then c else uuid4 w)"

text \<open>\<^verbatim>\<open>conversations.get(conversation_id, [])\<close>: the default list is built before the
  lookup, and returned when the key is absent.\<close>

definition conversations_get :: "string \<Rightarrow> state \<Rightarrow> addr \<times> state" where
  "conversations_get conversation_id s =
     (let (d, s1) = new_list s
      in (case conversations s1 conversation_id of None \<Rightarrow> (d, s1) | Some a \<Rightarrow> (a, s1)))"

text \<open>Lines 97 to 110: the conversation id, the history, the user data and the intent.\<close>

definition begin_cycle ::
  "world \<Rightarrow> QueryRequest \<Rightarrow> state \<Rightarrow> string \<times> addr \<times> UserData \<times> pyval \<times> state" where
  "begin_cycle w request s =
     (let conversation_id = resolve_conversation_id w request;
          (history, s1) = conversations_get conversation_id s;
          (user_data, s2) = get_user_by_phone w (req_phone request) s1;
          (intent, s3) = classify_intent w (req_query request) (Some history) s2
      in (conversation_id, history, user_data, intent, s3))"

text \<open>Lines 112 to 164: the routing on the intent.\<close>

definition route ::
  "world \<Rightarrow> QueryRequest \<Rightarrow> string \<Rightarrow> addr \<Rightarrow> UserData \<Rightarrow> pyval \<Rightarrow> state
     \<Rightarrow> string option \<times> state" where
  "route w request conversation_id history user_data intent s =
     (if intent = PyStr ''saudacao'' then
        generate_greeting w (req_query request) (ud_name user_data) (Some history) s
      else if intent = PyStr ''informacoes'' then
        (let (improved_query, s1) = improve_query_for_rag w (req_query request) (Some history) s;
             (context, s2) = retrieve_context w improved_query s1
         in generate_rag_response w (req_query request) context (Some history) s2)
      else if intent \<in> set [PyStr ''atendimento'', PyStr ''reclamacao''] then
        (let (answer, s1) = generate_attendance_response w (req_query request) (Some history) s;
             (_, s2) = notify_chatwoot_label w conversation_id s1
         in (answer, s2))
      else if intent = PyStr ''elogio'' then
        generate_praise_response w (req_query request) (Some history) s
      else
        generate_other_response w (req_query request) (Some history) s)"

text \<open>The constructor of \<^verbatim>\<open>QueryResponse\<close>: \<^verbatim>\<open>answer\<close> must be a string, \<^verbatim>\<open>intent\<close> a
  string or \<^verbatim>\<open>None\<close>; anything else is a validation error.\<close>

definition QueryResponse_init ::
  "world \<Rightarrow> string option \<Rightarrow> pyval \<Rightarrow> string \<Rightarrow> py_exception + QueryResponse" where
  "QueryResponse_init w answer intent conversation_id =
     (case (answer, intent) of
        (Some a, PyStr i) \<Rightarrow>
          Inr \<lparr>resp_answer = a, resp_intent = Some i, resp_conversation_id = Some conversation_id\<rparr>
      | (Some a, PyNone) \<Rightarrow>
          Inr \<lparr>resp_answer = a, resp_intent = None, resp_conversation_id = Some conversation_id\<rparr>
      | _ \<Rightarrow> Inl (ValidationError (validation_error_str w answer intent)))"

text \<open>Lines 166 to 177: the two appends, the store, the response.\<close>

definition finish_cycle ::
  "world \<Rightarrow> QueryRequest \<Rightarrow> string \<Rightarrow> addr \<Rightarrow> pyval \<Rightarrow> string option \<Rightarrow> state
     \<Rightarrow> (py_exception + QueryResponse) \<times> state" where
  "finish_cycle w request conversation_id history intent answer s =
     (let s1 = list_append history (user_message (req_query request)) s;
          s2 = list_append history (assistant_message answer) s1;
          s3 = s2\<lparr>conversations := (conversations s2)(conversation_id \<mapsto> history)\<rparr>
      in (QueryResponse_init w answer intent conversation_id, s3))"

text \<open>The body of the \<^verbatim>\<open>try\<close>.\<close>

definition process_query_body ::
  "world \<Rightarrow> QueryRequest \<Rightarrow> state \<Rightarrow> (py_exception + QueryResponse) \<times> state" where
  "process_query_body w request s =
     (let (conversation_id, history, user_data, intent, s1) = begin_cycle w request s;
          (answer, s2) = route w request conversation_id history user_data intent s1
      in finish_cycle w request conversation_id history intent answer s2)"

definition str_exception :: "py_exception \<Rightarrow> string" where
  "str_exception e = (case e of ValidationError m \<Rightarrow> m)"

text \<open>\<^verbatim>\<open>except Exception as e\<close>: status 500, with the text of the exception in the detail.\<close>

definition process_query ::
  "world \<Rightarrow> QueryRequest \<Rightarrow> state \<Rightarrow> (http_exception + QueryResponse) \<times> state" where
  "process_query w request s =
     (case process_query_body w request s of
        (Inr response, s') \<Rightarrow> (Inr response, s')
      | (Inl e, s') \<Rightarrow>
          (Inl (HTTPException 500 (''Error processing query: '' @ str_exception e)), s'))"

subsection \<open>\<^verbatim>\<open>delete_conversation\<close>\<close>

definition delete_conversation ::
  "string \<Rightarrow> state \<Rightarrow> (http_exception + (string \<times> string) list) \<times> state" where
  "delete_conversation conversation_id s =
     (if conversation_id \<in> dom (conversations s) then
        (Inr [(''message'', ''Conversation deleted successfully'')],
         s\<lparr>conversations := (conversations s)(conversation_id := None)\<rparr>)
      else (Inl (HTTPException 404 ''Conversation not found''), s))"

subsection \<open>Observations of one cycle\<close>

text \<open>The history stored under a conversation id: the contents of the list object the
  dictionary refers to, and the empty history when the id is not a key.\<close>

definition stored_history :: "state \<Rightarrow> string \<Rightarrow> turn list" where
  "stored_history s conversation_id =
     (case conversations s conversation_id of None \<Rightarrow> [] | Some a \<Rightarrow> heap s a)"

text \<open>A state is well formed when every reference held by the dictionary is an allocated
  list object.\<close>

definition wf_state :: "state \<Rightarrow> bool" where
  "wf_state s = (\<forall>k a. conversations s k = Some a \<longrightarrow> a < lim s)"

text \<open>The list object \<^verbatim>\<open>history\<close> of a cycle, the user data its profile lookup
  returns, the intent its classifier returns, the answer its branch produces, and the
  service calls it makes.\<close>

definition cycle_history :: "world \<Rightarrow> QueryRequest \<Rightarrow> state \<Rightarrow> addr" where
  "cycle_history w request s =
     (case begin_cycle w request s of (conversation_id, history, user_data, intent, s1) \<Rightarrow> history)"

definition cycle_user_data :: "world \<Rightarrow> QueryRequest \<Rightarrow> state \<Rightarrow> UserData" where
  "cycle_user_data w request s =
     (case begin_cycle w request s of (conversation_id, history, user_data, intent, s1) \<Rightarrow> user_data)"

definition cycle_intent :: "world \<Rightarrow> QueryRequest \<Rightarrow> state \<Rightarrow> pyval" where
  "cycle_intent w request s =
     (case begin_cycle w request s of (conversation_id, history, user_data, intent, s1) \<Rightarrow> intent)"

definition cycle_answer :: "world \<Rightarrow> QueryRequest \<Rightarrow> state \<Rightarrow> string option" where
  "cycle_answer w request s =
     (case begin_cycle w request s of (conversation_id, history, user_data, intent, s1) \<Rightarrow>
        fst (route w request conversation_id history user_data intent s1))"

definition cycle_calls :: "world \<Rightarrow> QueryRequest \<Rightarrow> state \<Rightarrow> event list" where
  "cycle_calls w request s = drop (length (calls s)) (calls (snd (process_query w request s)))"

text \<open>Successive requests, each with the world it runs in.\<close>

fun run_cycles :: "(world \<times> QueryRequest) list \<Rightarrow> state \<Rightarrow> state" where
  "run_cycles [] s = s"
| "run_cycles ((w, request) # rest) s = run_cycles rest (snd (process_query w request s))"

text \<open>The five response generators, and the generator a logged call belongs to. The
  classifier, the reformulator, the retriever, the profile lookup and the notifier are not
  generators.\<close>

datatype generator = Greeting | Information | Attendance | Praise | Other

fun generator_of :: "event \<Rightarrow> generator option" where
  "generator_of (GenerateGreeting q n h c r) = Some Greeting"
| "generator_of (GenerateRagResponse q x h c r) = Some Information"
| "generator_of (GenerateAttendanceResponse q h c r) = Some Attendance"
| "generator_of (GeneratePraiseResponse q h c r) = Some Praise"
| "generator_of (GenerateOtherResponse q h c r) = Some Other"
| "generator_of _ = None"

definition generators_invoked :: "event list \<Rightarrow> generator list" where
  "generators_invoked es = List.map_filter generator_of es"

fun is_notification :: "event \<Rightarrow> bool" where
  "is_notification (NotifyChatwootLabel c r) = True"
| "is_notification _ = False"

text \<open>The list objects a logged call received as its \<^verbatim>\<open>history\<close> argument.\<close>

fun passed_history :: "event \<Rightarrow> addr list" where
  "passed_history (ClassifyIntent q h r) = (case h of None \<Rightarrow> [] | Some a \<Rightarrow> [a])"
| "passed_history (GenerateGreeting q n h c r) = (case h of None \<Rightarrow> [] | Some a \<Rightarrow> [a])"
| "passed_history (ImproveQueryForRag q h c r) = (case h of None \<Rightarrow> [] | Some a \<Rightarrow> [a])"
| "passed_history (GenerateRagResponse q x h c r) = (case h of None \<Rightarrow> [] | Some a \<Rightarrow> [a])"
| "passed_history (GenerateAttendanceResponse q h c r) =
     (case h of None \<Rightarrow> [] | Some a \<Rightarrow> [a])"
| "passed_history (GeneratePraiseResponse q h c r) = (case h of None \<Rightarrow> [] | Some a \<Rightarrow> [a])"
| "passed_history (GenerateOtherResponse q h c r) = (case h of None \<Rightarrow> [] | Some a \<Rightarrow> [a])"
| "passed_history _ = []"

text \<open>The state after the classification, and the state after the routing.\<close>

definition cycle_begin_state :: "world \<Rightarrow> QueryRequest \<Rightarrow> state \<Rightarrow> state" where
  "cycle_begin_state w request s =
     (case begin_cycle w request s of (conversation_id, history, user_data, intent, s1) \<Rightarrow> s1)"

definition cycle_route_state :: "world \<Rightarrow> QueryRequest \<Rightarrow> state \<Rightarrow> state" where
  "cycle_route_state w request s =
     (case begin_cycle w request s of (conversation_id, history, user_data, intent, s1) \<Rightarrow>
        snd (route w request conversation_id history user_data intent s1))"

text \<open>What the two lines \<^verbatim>\<open>messages = history or []\<close> and
  \<^verbatim>\<open>messages.append({"role": "user", "content": query})\<close> do to the state when
  \<^verbatim>\<open>history\<close> is the list object \<open>a\<close>, the object \<^verbatim>\<open>messages\<close> then is, and the messages
  the completion receives.\<close>

definition push_user :: "addr \<Rightarrow> string \<Rightarrow> state \<Rightarrow> state" where
  "push_user a q s =
     (if heap s a \<noteq> [] then list_append a (user_message q) s
      else list_append (lim s) (user_message q) (snd (new_list s)))"

definition messages_addr :: "addr \<Rightarrow> state \<Rightarrow> addr" where
  "messages_addr a s = (if heap s a \<noteq> [] then a else lim s)"

definition messages_sent :: "addr \<Rightarrow> string \<Rightarrow> state \<Rightarrow> turn list" where
  "messages_sent a q s = heap (push_user a q s) (messages_addr a s)"

subsection \<open>Example inputs\<close>

text \<open>A world whose classifier answers the JSON object \<^verbatim>\<open>{"intent": label}\<close>, whose
  completions all return the text \<^verbatim>\<open>ok\<close> and whose notification succeeds; the same world
  with every completion of a generator or of the reformulator raising, and with every
  completion of a generator returning no content; a request on the conversation \<^verbatim>\<open>c1\<close>
  and one without conversation id; and a state in which that conversation holds one
  exchange.\<close>

definition example_world :: "string \<Rightarrow> world" where
  "example_world label =
     \<lparr>uuid4 = ''0b5f2c1e-generated'',
      user_by_phone = (\<lambda>_. None),
      classifier_reply = (\<lambda>_. JObject (\<lambda>k. if k = ''intent'' then Some (PyStr label) else None)),
      greeting_reply = (\<lambda>_. Content (Some ''ok'')),
      attendance_reply = (\<lambda>_. Content (Some ''ok'')),
      praise_reply = (\<lambda>_. Content (Some ''ok'')),
      other_reply = (\<lambda>_. Content (Some ''ok'')),
      improve_reply = (\<lambda>_. Content (Some ''precio scooter X2'')),
      rag_reply = (\<lambda>_ _ _. Content (Some ''ok'')),
      chatwoot_label_ok = (\<lambda>_. True),
      validation_error_str = (\<lambda>_ _. ''1 validation error for QueryResponse''),
      dataset_ids = []\<rparr>"

definition failing_world :: "string \<Rightarrow> world" where
  "failing_world label =
     (example_world label)
       \<lparr>greeting_reply := (\<lambda>_. Raised), attendance_reply := (\<lambda>_. Raised),
        praise_reply := (\<lambda>_. Raised), other_reply := (\<lambda>_. Raised),
        improve_reply := (\<lambda>_. Raised), rag_reply := (\<lambda>_ _ _. Raised)\<rparr>"

definition silent_world :: "string \<Rightarrow> world" where
  "silent_world label =
     (example_world label)
       \<lparr>greeting_reply := (\<lambda>_. Content None), attendance_reply := (\<lambda>_. Content None),
        praise_reply := (\<lambda>_. Content None), other_reply := (\<lambda>_. Content None),
        rag_reply := (\<lambda>_ _ _. Content None)\<rparr>"


definition example_request :: QueryRequest where
  "example_request = \<lparr>req_query = ''Hola'', req_phone = ''56950080442'',
     req_conversation_id = Some ''c1''\<rparr>"


definition example_state :: state where
  "example_state =
     \<lparr>heap = (\<lambda>_. [])(0 := [user_message ''Hola'', assistant_message (Some ''ok'')]),
      lim = 1, conversations = [''c1'' \<mapsto> 0], calls = []\<rparr>"

section \<open>Effects of the services on the state\<close>

lemma record_call_sel [simp]:
  "heap (record_call e s) = heap s"
  "lim (record_call e s) = lim s"
  "conversations (record_call e s) = conversations s"
  "calls (record_call e s) = calls s @ [e]"
  by (simp_all add: record_call_def)

lemma list_append_sel [simp]:
  "heap (list_append a t s) = (heap s)(a := heap s a @ [t])"
  "lim (list_append a t s) = lim s"
  "conversations (list_append a t s) = conversations s"
  "calls (list_append a t s) = calls s"
  by (simp_all add: list_append_def)

lemma new_list_sel [simp]:
  "fst (new_list s) = lim s"
  "heap (snd (new_list s)) = (heap s)(lim s := [])"
  "lim (snd (new_list s)) = Suc (lim s)"
  "conversations (snd (new_list s)) = conversations s"
  "calls (snd (new_list s)) = calls s"
  by (simp_all add: new_list_def)

lemma push_user_sel [simp]:
  "heap (push_user a q s) =
     (if heap s a \<noteq> [] then (heap s)(a := heap s a @ [user_message q])
      else (heap s)(lim s := [user_message q]))"
  "lim (push_user a q s) = (if heap s a \<noteq> [] then lim s else Suc (lim s))"
  "conversations (push_user a q s) = conversations s"
  "calls (push_user a q s) = calls s"
  by (simp_all add: push_user_def)

lemmas prepare_defs = history_or_new_def push_user_def messages_sent_def messages_addr_def
  Let_def split_def

lemma classify_intent_snd:
  "snd (classify_intent w q (Some a) s) =
     record_call (ClassifyIntent q (Some a) (fst (classify_intent w q (Some a) s)))
       (push_user a q s)"
  by (simp add: classify_intent_def prepare_defs)

lemma generate_greeting_snd:
  "snd (generate_greeting w q n (Some a) s) =
     record_call (GenerateGreeting q n (Some a) (greeting_reply w (messages_sent a q s))
        (fst (generate_greeting w q n (Some a) s))) (push_user a q s)"
  by (simp add: generate_greeting_def prepare_defs)

lemma generate_attendance_response_snd:
  "snd (generate_attendance_response w q (Some a) s) =
     record_call (GenerateAttendanceResponse q (Some a) (attendance_reply w (messages_sent a q s))
        (fst (generate_attendance_response w q (Some a) s))) (push_user a q s)"
  by (simp add: generate_attendance_response_def prepare_defs)

lemma generate_praise_response_snd:
  "snd (generate_praise_response w q (Some a) s) =
     record_call (GeneratePraiseResponse q (Some a) (praise_reply w (messages_sent a q s))
        (fst (generate_praise_response w q (Some a) s))) (push_user a q s)"
  by (simp add: generate_praise_response_def prepare_defs)

lemma generate_other_response_snd:
  "snd (generate_other_response w q (Some a) s) =
     record_call (GenerateOtherResponse q (Some a) (other_reply w (messages_sent a q s))
        (fst (generate_other_response w q (Some a) s))) (push_user a q s)"
  by (simp add: generate_other_response_def prepare_defs)

lemma improve_query_for_rag_snd:
  "snd (improve_query_for_rag w q (Some a) s) =
     record_call (ImproveQueryForRag q (Some a) (improve_reply w (messages_sent a q s))
        (fst (improve_query_for_rag w q (Some a) s))) (push_user a q s)"
  by (simp add: improve_query_for_rag_def prepare_defs)

lemma generate_rag_response_snd:
  "snd (generate_rag_response w q c (Some a) s) =
     record_call (GenerateRagResponse q c (Some a) (rag_reply w q c (messages_sent a q s))
        (fst (generate_rag_response w q c (Some a) s))) (push_user a q s)"
  by (simp add: generate_rag_response_def prepare_defs)

lemma retrieve_context_snd:
  "snd (retrieve_context w q s) = record_call (RetrieveContext q (fst (retrieve_context w q s))) s"
  by (simp add: retrieve_context_def Let_def)

lemma get_user_by_phone_snd:
  "snd (get_user_by_phone w p s) =
     record_call (GetUserByPhone p (fst (get_user_by_phone w p s))) s"
  by (simp add: get_user_by_phone_def Let_def)

lemma notify_chatwoot_label_snd:
  "snd (notify_chatwoot_label w c s) =
     record_call (NotifyChatwootLabel c (chatwoot_label_ok w c)) s"
  by (simp add: notify_chatwoot_label_def Let_def)

lemmas service_snd = classify_intent_snd generate_greeting_snd generate_attendance_response_snd
  generate_praise_response_snd generate_other_response_snd improve_query_for_rag_snd
  generate_rag_response_snd retrieve_context_snd get_user_by_phone_snd notify_chatwoot_label_snd

text \<open>The result of each generator: the content of the completion, or the fallback of the
  generator when the completion raised.\<close>

lemma generate_greeting_fst:
  "fst (generate_greeting w q n (Some a) s) =
     (case greeting_reply w (messages_sent a q s) of
        Raised \<Rightarrow> Some greeting_fallback | Content x \<Rightarrow> x)"
  by (simp add: generate_greeting_def prepare_defs)

lemma generate_attendance_response_fst:
  "fst (generate_attendance_response w q (Some a) s) =
     (case attendance_reply w (messages_sent a q s) of
        Raised \<Rightarrow> Some attendance_fallback | Content x \<Rightarrow> x)"
  by (simp add: generate_attendance_response_def prepare_defs)

lemma generate_praise_response_fst:
  "fst (generate_praise_response w q (Some a) s) =
     (case praise_reply w (messages_sent a q s) of
        Raised \<Rightarrow> Some praise_fallback | Content x \<Rightarrow> x)"
  by (simp add: generate_praise_response_def prepare_defs)

lemma generate_other_response_fst:
  "fst (generate_other_response w q (Some a) s) =
     (case other_reply w (messages_sent a q s) of
        Raised \<Rightarrow> Some other_fallback | Content x \<Rightarrow> x)"
  by (simp add: generate_other_response_def prepare_defs)

lemma improve_query_for_rag_fst:
  "fst (improve_query_for_rag w q (Some a) s) =
     (case improve_reply w (messages_sent a q s) of
        Raised \<Rightarrow> Some q | Content x \<Rightarrow> x)"
  by (simp add: improve_query_for_rag_def prepare_defs)

lemma generate_rag_response_fst:
  "fst (generate_rag_response w q c (Some a) s) =
     (case rag_reply w q c (messages_sent a q s) of
        Raised \<Rightarrow> Some rag_fallback | Content x \<Rightarrow> x)"
  by (simp add: generate_rag_response_def prepare_defs)

lemmas service_fst = generate_greeting_fst generate_attendance_response_fst
  generate_praise_response_fst generate_other_response_fst improve_query_for_rag_fst
  generate_rag_response_fst

section \<open>The blocks of one cycle\<close>

lemma begin_cycle_tuple:
  "begin_cycle w r s = (resolve_conversation_id w r, cycle_history w r s, cycle_user_data w r s,
     cycle_intent w r s, cycle_begin_state w r s)"
  by (simp add: cycle_history_def cycle_user_data_def cycle_intent_def cycle_begin_state_def
      begin_cycle_def Let_def split_def)

lemma conversations_get_eq:
  "conversations_get c s =
     (case conversations s c of None \<Rightarrow> lim s | Some a \<Rightarrow> a, snd (new_list s))"
  by (simp add: conversations_get_def new_list_def Let_def split: option.splits)

lemma cycle_history_eq:
  "cycle_history w r s =
     (case conversations s (resolve_conversation_id w r) of None \<Rightarrow> lim s | Some a \<Rightarrow> a)"
  by (simp add: cycle_history_def begin_cycle_def conversations_get_eq Let_def split_def)

lemma cycle_begin_state_eq:
  "cycle_begin_state w r s =
     record_call (ClassifyIntent (req_query r) (Some (cycle_history w r s)) (cycle_intent w r s))
       (push_user (cycle_history w r s) (req_query r)
         (record_call (GetUserByPhone (req_phone r) (cycle_user_data w r s)) (snd (new_list s))))"
  by (simp add: cycle_begin_state_def cycle_history_def cycle_intent_def cycle_user_data_def
      begin_cycle_def Let_def split_def service_snd conversations_get_eq)

lemma route_sel:
  "conversations (snd (route w r c h ud i s)) = conversations s"
  "heap (snd (route w r c h ud i s)) =
     heap (if i = PyStr ''informacoes''
           then push_user h (req_query r) (push_user h (req_query r) s)
           else push_user h (req_query r) s)"
  "lim (snd (route w r c h ud i s)) =
     lim (if i = PyStr ''informacoes''
          then push_user h (req_query r) (push_user h (req_query r) s)
          else push_user h (req_query r) s)"
  by (simp_all add: route_def Let_def split_def service_snd)

lemma process_query_body_eq:
  "process_query_body w r s =
     finish_cycle w r (resolve_conversation_id w r) (cycle_history w r s) (cycle_intent w r s)
       (cycle_answer w r s) (cycle_route_state w r s)"
  by (simp add: process_query_body_def cycle_answer_def cycle_route_state_def begin_cycle_tuple
      split_def Let_def)

lemma process_query_snd: "snd (process_query w r s) = snd (process_query_body w r s)"
  by (simp add: process_query_def split: prod.splits sum.splits)

lemma process_query_fst:
  "fst (process_query w r s) =
     (case QueryResponse_init w (cycle_answer w r s) (cycle_intent w r s)
             (resolve_conversation_id w r) of
        Inl e \<Rightarrow> Inl (HTTPException 500 (''Error processing query: '' @ str_exception e))
      | Inr response \<Rightarrow> Inr response)"
  by (simp add: process_query_def process_query_body_eq finish_cycle_def Let_def
      split: sum.splits)

lemma cycle_route_state_sel:
  "conversations (cycle_route_state w r s) = conversations s"
  "heap (cycle_route_state w r s) =
     heap (if cycle_intent w r s = PyStr ''informacoes''
           then push_user (cycle_history w r s) (req_query r)
                  (push_user (cycle_history w r s) (req_query r) (cycle_begin_state w r s))
           else push_user (cycle_history w r s) (req_query r) (cycle_begin_state w r s))"
  "lim (cycle_route_state w r s) =
     lim (if cycle_intent w r s = PyStr ''informacoes''
          then push_user (cycle_history w r s) (req_query r)
                 (push_user (cycle_history w r s) (req_query r) (cycle_begin_state w r s))
          else push_user (cycle_history w r s) (req_query r) (cycle_begin_state w r s))"
  by (simp_all add: cycle_route_state_def begin_cycle_tuple route_sel cycle_begin_state_eq)

lemma process_query_sel:
  "conversations (snd (process_query w r s)) =
     (conversations s)(resolve_conversation_id w r \<mapsto> cycle_history w r s)"
  "heap (snd (process_query w r s)) =
     (heap (cycle_route_state w r s))(cycle_history w r s :=
        heap (cycle_route_state w r s) (cycle_history w r s)
          @ [user_message (req_query r), assistant_message (cycle_answer w r s)])"
  "lim (snd (process_query w r s)) = lim (cycle_route_state w r s)"
  "calls (snd (process_query w r s)) = calls (cycle_route_state w r s)"
  by (simp_all add: process_query_snd process_query_body_eq finish_cycle_def Let_def
      cycle_route_state_sel)

text \<open>The history of a cycle is an allocated object when the cycle ends, and allocation
  only grows.\<close>

lemma lim_process_query: "lim s < lim (snd (process_query w r s))"
  by (simp add: process_query_sel cycle_route_state_sel cycle_begin_state_eq)

lemma wf_state_initial: "wf_state initial_state"
  by (simp add: wf_state_def initial_state_def)

lemma wf_state_process_query:
  assumes "wf_state s"
  shows "wf_state (snd (process_query w r s))"
proof -
  have h: "cycle_history w r s \<le> lim s"
    using assms by (auto simp: cycle_history_eq wf_state_def split: option.splits dest: less_imp_le)
  have "\<And>k a. conversations s k = Some a \<Longrightarrow> a < lim (snd (process_query w r s))"
    using assms lim_process_query [of s w r] by (fastforce simp: wf_state_def)
  moreover have "cycle_history w r s < lim (snd (process_query w r s))"
    using h lim_process_query [of s w r] by simp
  ultimately show ?thesis
    by (simp add: wf_state_def process_query_sel(1))
qed

lemma wf_state_delete_conversation:
  "wf_state s \<Longrightarrow> wf_state (snd (delete_conversation c s))"
  by (simp add: wf_state_def delete_conversation_def)

lemma wf_state_run_cycles: "wf_state s \<Longrightarrow> wf_state (run_cycles cs s)"
  by (induction cs arbitrary: s) (auto simp: wf_state_process_query)

text \<open>The calls the routing block makes, branch by branch.\<close>

lemma route_calls:
  "calls (snd (route w r c h ud i s)) = calls s @
     (if i = PyStr ''saudacao'' then
        [GenerateGreeting (req_query r) (ud_name ud) (Some h)
           (greeting_reply w (messages_sent h (req_query r) s)) (fst (route w r c h ud i s))]
      else if i = PyStr ''informacoes'' then
        (let out = improve_reply w (messages_sent h (req_query r) s);
             improved = (case out of Raised \<Rightarrow> Some (req_query r) | Content x \<Rightarrow> x);
             s1 = snd (improve_query_for_rag w (req_query r) (Some h) s);
             context = fst (retrieve_context w improved s1);
             s2 = snd (retrieve_context w improved s1)
         in [ImproveQueryForRag (req_query r) (Some h) out improved,
             RetrieveContext improved context,
             GenerateRagResponse (req_query r) context (Some h)
               (rag_reply w (req_query r) context (messages_sent h (req_query r) s2))
               (fst (route w r c h ud i s))])
      else if i = PyStr ''atendimento'' \<or> i = PyStr ''reclamacao'' then
        [GenerateAttendanceResponse (req_query r) (Some h)
           (attendance_reply w (messages_sent h (req_query r) s)) (fst (route w r c h ud i s)),
         NotifyChatwootLabel c (chatwoot_label_ok w c)]
      else if i = PyStr ''elogio'' then
        [GeneratePraiseResponse (req_query r) (Some h)
           (praise_reply w (messages_sent h (req_query r) s)) (fst (route w r c h ud i s))]
      else
        [GenerateOtherResponse (req_query r) (Some h)
           (other_reply w (messages_sent h (req_query r) s)) (fst (route w r c h ud i s))])"
  by (simp add: route_def Let_def split_def service_snd improve_query_for_rag_fst)

lemma cycle_calls_eq:
  "cycle_calls w r s =
     [GetUserByPhone (req_phone r) (cycle_user_data w r s),
      ClassifyIntent (req_query r) (Some (cycle_history w r s)) (cycle_intent w r s)] @
     drop (length (calls (cycle_begin_state w r s))) (calls (cycle_route_state w r s))"
proof -
  obtain ys where ys: "calls (cycle_route_state w r s) = calls (cycle_begin_state w r s) @ ys"
    by (simp add: cycle_route_state_def begin_cycle_tuple route_calls)
  have "calls (cycle_begin_state w r s) = calls s @
     [GetUserByPhone (req_phone r) (cycle_user_data w r s),
      ClassifyIntent (req_query r) (Some (cycle_history w r s)) (cycle_intent w r s)]"
    by (simp add: cycle_begin_state_eq)
  with ys show ?thesis
    by (simp add: cycle_calls_def process_query_sel)
qed

lemma cycle_route_calls:
  "drop (length (calls (cycle_begin_state w r s))) (calls (cycle_route_state w r s)) =
     (if cycle_intent w r s = PyStr ''saudacao'' then
        [GenerateGreeting (req_query r) (ud_name (cycle_user_data w r s))
           (Some (cycle_history w r s))
           (greeting_reply w
              (messages_sent (cycle_history w r s) (req_query r) (cycle_begin_state w r s)))
           (cycle_answer w r s)]
      else if cycle_intent w r s = PyStr ''informacoes'' then
        (let out = improve_reply w
                     (messages_sent (cycle_history w r s) (req_query r) (cycle_begin_state w r s));
             improved = (case out of Raised \<Rightarrow> Some (req_query r) | Content x \<Rightarrow> x);
             s1 = snd (improve_query_for_rag w (req_query r) (Some (cycle_history w r s))
                        (cycle_begin_state w r s));
             context = fst (retrieve_context w improved s1);
             s2 = snd (retrieve_context w improved s1)
         in [ImproveQueryForRag (req_query r) (Some (cycle_history w r s)) out improved,
             RetrieveContext improved context,
             GenerateRagResponse (req_query r) context (Some (cycle_history w r s))
               (rag_reply w (req_query r) context
                  (messages_sent (cycle_history w r s) (req_query r) s2))
               (cycle_answer w r s)])
      else if cycle_intent w r s = PyStr ''atendimento''
              \<or> cycle_intent w r s = PyStr ''reclamacao'' then
        [GenerateAttendanceResponse (req_query r) (Some (cycle_history w r s))
           (attendance_reply w
              (messages_sent (cycle_history w r s) (req_query r) (cycle_begin_state w r s)))
           (cycle_answer w r s),
         NotifyChatwootLabel (resolve_conversation_id w r)
           (chatwoot_label_ok w (resolve_conversation_id w r))]
      else if cycle_intent w r s = PyStr ''elogio'' then
        [GeneratePraiseResponse (req_query r) (Some (cycle_history w r s))
           (praise_reply w
              (messages_sent (cycle_history w r s) (req_query r) (cycle_begin_state w r s)))
           (cycle_answer w r s)]
      else
        [GenerateOtherResponse (req_query r) (Some (cycle_history w r s))
           (other_reply w
              (messages_sent (cycle_history w r s) (req_query r) (cycle_begin_state w r s)))
           (cycle_answer w r s)])"
  by (simp add: cycle_route_state_def cycle_answer_def begin_cycle_tuple route_calls)

text \<open>The answer of a cycle, branch by branch, and the response built from it.\<close>

lemma route_fst:
  "fst (route w r c h ud i s) =
     (if i = PyStr ''saudacao'' then
        (case greeting_reply w (messages_sent h (req_query r) s) of
           Raised \<Rightarrow> Some greeting_fallback | Content x \<Rightarrow> x)
      else if i = PyStr ''informacoes'' then
        (let out = improve_reply w (messages_sent h (req_query r) s);
             improved = (case out of Raised \<Rightarrow> Some (req_query r) | Content x \<Rightarrow> x);
             s1 = snd (improve_query_for_rag w (req_query r) (Some h) s);
             context = fst (retrieve_context w improved s1);
             s2 = snd (retrieve_context w improved s1)
         in (case rag_reply w (req_query r) context (messages_sent h (req_query r) s2) of
               Raised \<Rightarrow> Some rag_fallback | Content x \<Rightarrow> x))
      else if i = PyStr ''atendimento'' \<or> i = PyStr ''reclamacao'' then
        (case attendance_reply w (messages_sent h (req_query r) s) of
           Raised \<Rightarrow> Some attendance_fallback | Content x \<Rightarrow> x)
      else if i = PyStr ''elogio'' then
        (case praise_reply w (messages_sent h (req_query r) s) of
           Raised \<Rightarrow> Some praise_fallback | Content x \<Rightarrow> x)
      else
        (case other_reply w (messages_sent h (req_query r) s) of
           Raised \<Rightarrow> Some other_fallback | Content x \<Rightarrow> x))"
  by (simp add: route_def Let_def split_def service_fst)

lemma cycle_answer_eq:
  "cycle_answer w r s =
     fst (route w r (resolve_conversation_id w r) (cycle_history w r s) (cycle_user_data w r s)
            (cycle_intent w r s) (cycle_begin_state w r s))"
  by (simp add: cycle_answer_def begin_cycle_tuple)

lemma fallbacks_distinct:
  "distinct [greeting_fallback, attendance_fallback, praise_fallback, other_fallback, rag_fallback]"
  by (simp add: greeting_fallback_def attendance_fallback_def praise_fallback_def
      other_fallback_def rag_fallback_def)

lemma response_answer:
  "fst (process_query w r s) = Inr resp \<Longrightarrow> cycle_answer w r s = Some (resp_answer resp)"
  by (auto simp: process_query_fst QueryResponse_init_def
      split: option.splits pyval.splits sum.splits)

lemma response_returned:
  "cycle_answer w r s \<noteq> None \<Longrightarrow> cycle_intent w r s \<noteq> PyOther \<Longrightarrow>
     \<exists>resp. fst (process_query w r s) = Inr resp"
  by (auto simp: process_query_fst QueryResponse_init_def
      split: option.splits pyval.splits sum.splits)

lemma greeting_raised:
  assumes "GenerateGreeting q n h Raised res \<in> set (cycle_calls w r s)"
  shows "cycle_answer w r s = Some greeting_fallback"
  using assms
  by (auto simp: cycle_calls_eq cycle_route_calls cycle_answer_eq route_fst Let_def
      split: if_splits)

lemma attendance_raised:
  assumes "GenerateAttendanceResponse q h Raised res \<in> set (cycle_calls w r s)"
  shows "cycle_answer w r s = Some attendance_fallback"
  using assms
  by (auto simp: cycle_calls_eq cycle_route_calls cycle_answer_eq route_fst Let_def
      split: if_splits)

lemma praise_raised:
  assumes "GeneratePraiseResponse q h Raised res \<in> set (cycle_calls w r s)"
  shows "cycle_answer w r s = Some praise_fallback"
  using assms
  by (auto simp: cycle_calls_eq cycle_route_calls cycle_answer_eq route_fst Let_def
      split: if_splits)

lemma other_raised:
  assumes "GenerateOtherResponse q h Raised res \<in> set (cycle_calls w r s)"
  shows "cycle_answer w r s = Some other_fallback"
  using assms
  by (auto simp: cycle_calls_eq cycle_route_calls cycle_answer_eq route_fst Let_def
      split: if_splits)

lemma rag_raised:
  assumes "GenerateRagResponse q x h Raised res \<in> set (cycle_calls w r s)"
  shows "cycle_answer w r s = Some rag_fallback"
  using assms
  by (auto simp: cycle_calls_eq cycle_route_calls cycle_answer_eq route_fst Let_def
      split: if_splits)

text \<open>The notification outcome is read by nothing but the notifier.\<close>

lemma resolve_notify_indep:
  "resolve_conversation_id (w\<lparr>chatwoot_label_ok := ok\<rparr>) r = resolve_conversation_id w r"
  by (simp add: resolve_conversation_id_def split: option.splits)

lemma begin_cycle_notify_indep:
  "begin_cycle (w\<lparr>chatwoot_label_ok := ok\<rparr>) r s = begin_cycle w r s"
  by (simp add: begin_cycle_def resolve_notify_indep get_user_by_phone_def
      classify_intent_def Let_def split_def)

lemma route_fst_notify_indep:
  "fst (route (w\<lparr>chatwoot_label_ok := ok\<rparr>) r c h ud i s) = fst (route w r c h ud i s)"
  by (simp add: route_fst Let_def improve_query_for_rag_def retrieve_context_def split_def)

lemma cycle_notify_indep:
  "cycle_answer (w\<lparr>chatwoot_label_ok := ok\<rparr>) r s = cycle_answer w r s"
  "cycle_intent (w\<lparr>chatwoot_label_ok := ok\<rparr>) r s = cycle_intent w r s"
  "cycle_history (w\<lparr>chatwoot_label_ok := ok\<rparr>) r s = cycle_history w r s"
  "cycle_begin_state (w\<lparr>chatwoot_label_ok := ok\<rparr>) r s = cycle_begin_state w r s"
  by (simp_all add: cycle_answer_def cycle_intent_def cycle_history_def cycle_begin_state_def
      begin_cycle_notify_indep route_fst_notify_indep)

text \<open>The history object through one cycle.\<close>

lemma cycle_passed_history:
  "concat (map passed_history (cycle_calls w r s)) =
     (if cycle_intent w r s = PyStr ''informacoes''
      then [cycle_history w r s, cycle_history w r s, cycle_history w r s]
      else [cycle_history w r s, cycle_history w r s])"
  by (simp add: cycle_calls_eq cycle_route_calls Let_def)

lemma stored_cycle_heap:
  assumes "wf_state s" "conversations s c = Some a" "heap s a \<noteq> []"
    "resolve_conversation_id w r = c"
  shows "cycle_history w r s = a"
    "heap (cycle_begin_state w r s) a = heap s a @ [user_message (req_query r)]"
    "heap (cycle_route_state w r s) a = heap s a @
      (if cycle_intent w r s = PyStr ''informacoes''
       then [user_message (req_query r), user_message (req_query r), user_message (req_query r)]
       else [user_message (req_query r), user_message (req_query r)])"
    "heap (snd (process_query w r s)) a = heap s a @
      (if cycle_intent w r s = PyStr ''informacoes''
       then [user_message (req_query r), user_message (req_query r), user_message (req_query r),
             user_message (req_query r), assistant_message (cycle_answer w r s)]
       else [user_message (req_query r), user_message (req_query r), user_message (req_query r),
             assistant_message (cycle_answer w r s)])"
proof -
  have lt: "a < lim s" using assms by (simp add: wf_state_def)
  show h: "cycle_history w r s = a" using assms by (simp add: cycle_history_eq)
  show "heap (cycle_begin_state w r s) a = heap s a @ [user_message (req_query r)]"
    using lt assms by (simp add: cycle_begin_state_eq h)
  show "heap (cycle_route_state w r s) a = heap s a @
      (if cycle_intent w r s = PyStr ''informacoes''
       then [user_message (req_query r), user_message (req_query r), user_message (req_query r)]
       else [user_message (req_query r), user_message (req_query r)])"
    using lt assms by (simp add: cycle_route_state_sel cycle_begin_state_eq h)
  show "heap (snd (process_query w r s)) a = heap s a @
      (if cycle_intent w r s = PyStr ''informacoes''
       then [user_message (req_query r), user_message (req_query r), user_message (req_query r),
             user_message (req_query r), assistant_message (cycle_answer w r s)]
       else [user_message (req_query r), user_message (req_query r), user_message (req_query r),
             assistant_message (cycle_answer w r s)])"
    using lt assms by (simp add: process_query_sel cycle_route_state_sel cycle_begin_state_eq h)
qed

lemma first_cycle_heap:
  assumes "wf_state s" "stored_history s c = []" "resolve_conversation_id w r = c"
  shows "stored_history (snd (process_query w r s)) c =
       [user_message (req_query r), assistant_message (cycle_answer w r s)]"
proof (cases "conversations s c")
  case None
  then have h: "cycle_history w r s = lim s" using assms by (simp add: cycle_history_eq)
  show ?thesis using None assms
    by (simp add: stored_history_def process_query_sel cycle_route_state_sel
        cycle_begin_state_eq h)
next
  case (Some a)
  then have lt: "a < lim s" using assms by (simp add: wf_state_def)
  have h: "cycle_history w r s = a" using assms Some by (simp add: cycle_history_eq)
  have e: "heap s a = []" using assms Some by (simp add: stored_history_def)
  show ?thesis using Some assms lt e
    by (simp add: stored_history_def process_query_sel cycle_route_state_sel
        cycle_begin_state_eq h)
qed

lemma stored_after_cycle:
  "stored_history (snd (process_query w r s)) (resolve_conversation_id w r) =
     heap (snd (process_query w r s)) (cycle_history w r s)"
  "stored_history (snd (process_query w r s)) (resolve_conversation_id w r) \<noteq> []"
  by (simp_all add: stored_history_def process_query_sel)





section \<open>Properties of the pipeline\<close>

lemmas model_defs = process_query_def process_query_body_def begin_cycle_def route_def
  finish_cycle_def conversations_get_def resolve_conversation_id_def QueryResponse_init_def
  str_exception_def classify_intent_def generate_greeting_def generate_attendance_response_def
  generate_praise_response_def generate_other_response_def improve_query_for_rag_def
  generate_rag_response_def retrieve_context_def get_user_by_phone_def
  notify_chatwoot_label_def history_or_new_def new_list_def list_append_def record_call_def
  default_UserData_def stored_history_def cycle_history_def cycle_intent_def cycle_answer_def cycle_calls_def
  generators_invoked_def Let_def split_def

lemmas example_defs = example_world_def failing_world_def silent_world_def example_request_def
  example_state_def initial_state_def

lemma example_state_facts:
  "wf_state example_state" "conversations example_state ''c1'' = Some 0"
  "heap example_state 0 = [user_message ''Hola'', assistant_message (Some ''ok'')]"
  "stored_history example_state ''c1'' = [user_message ''Hola'', assistant_message (Some ''ok'')]"
  "wf_state initial_state" "stored_history initial_state k = []"
  by (simp_all add: wf_state_def example_state_def initial_state_def stored_history_def)

lemma example_world_facts:
  "resolve_conversation_id (example_world l) example_request = ''c1''"
  "cycle_intent (example_world l) example_request example_state = PyStr l"
  "cycle_intent (example_world l) example_request initial_state = PyStr l"
  "req_query example_request = ''Hola''"
  by (simp_all add: model_defs example_defs)

lemma example_answers:
  "cycle_answer (example_world ''saudacao'') example_request example_state = Some ''ok''"
  "cycle_answer (example_world ''informacoes'') example_request example_state = Some ''ok''"
  "cycle_answer (example_world ''atendimento'') example_request example_state = Some ''ok''"
  "cycle_answer (example_world ''saudacao'') example_request initial_state = Some ''ok''"
  by (simp_all add: model_defs example_defs)

subsection \<open>History growth\<close>

text \<open>
  C1. The append law reads: after \<open>N\<close> successful cycles on one conversation id the stored
  history has exactly \<open>2N\<close> entries, alternating user and assistant turns, the final two
  appends being the only change to the history.

  The program does not keep it. Two successful greeting cycles on the conversation \<^verbatim>\<open>c1\<close>,
  starting from the empty store, leave six entries under \<^verbatim>\<open>c1\<close>, not four: in the second
  cycle the classifier and the generator each append the user turn to the stored list
  object before the router appends its pair.
\<close>

theorem history_after_two_cycles:
  "fst (process_query (example_world ''saudacao'') example_request initial_state)
     = Inr \<lparr>resp_answer = ''ok'', resp_intent = Some ''saudacao'',
            resp_conversation_id = Some ''c1''\<rparr>
   \<and> fst (process_query (example_world ''saudacao'') example_request
            (snd (process_query (example_world ''saudacao'') example_request initial_state)))
     = Inr \<lparr>resp_answer = ''ok'', resp_intent = Some ''saudacao'',
            resp_conversation_id = Some ''c1''\<rparr>
   \<and> stored_history
        (run_cycles [(example_world ''saudacao'', example_request),
                     (example_world ''saudacao'', example_request)] initial_state) ''c1''
     = [user_message ''Hola'', assistant_message (Some ''ok''),
        user_message ''Hola'', user_message ''Hola'', user_message ''Hola'',
        assistant_message (Some ''ok'')]"
  by (simp add: model_defs example_defs)

subsection \<open>Deletion\<close>

text \<open>
  C3, as the program has it. Deleting an id that is a key of the store returns the message
  \<^verbatim>\<open>Conversation deleted successfully\<close> and removes the key, so that the stored history of
  the id is empty afterwards, the next lookup \<^verbatim>\<open>conversations.get(id, [])\<close> yields an empty
  list, and the histories of the other ids are untouched. Deleting an id that is not a key
  raises the HTTP error 404 \<^verbatim>\<open>Conversation not found\<close> and leaves the state as it was.
\<close>

theorem delete_conversation_result:
  "(conversations s c = Some a \<longrightarrow>
      fst (delete_conversation c s) = Inr [(''message'', ''Conversation deleted successfully'')]
      \<and> conversations (snd (delete_conversation c s)) c = None
      \<and> stored_history (snd (delete_conversation c s)) c = []
      \<and> heap (snd (conversations_get c (snd (delete_conversation c s))))
           (fst (conversations_get c (snd (delete_conversation c s)))) = []
      \<and> (\<forall>k. k \<noteq> c \<longrightarrow>
            stored_history (snd (delete_conversation c s)) k = stored_history s k))
   \<and> (conversations s c = None \<longrightarrow>
        delete_conversation c s = (Inl (HTTPException 404 ''Conversation not found''), s))"
  by (auto simp: delete_conversation_def stored_history_def conversations_get_eq
      split: option.splits)

theorem delete_conversation_result_witness:
  "conversations example_state ''c1'' = Some 0
   \<and> fst (delete_conversation ''c1'' example_state)
        = Inr [(''message'', ''Conversation deleted successfully'')]
   \<and> stored_history (snd (delete_conversation ''c1'' example_state)) ''c1'' = []
   \<and> conversations initial_state ''c1'' = None
   \<and> delete_conversation ''c1'' initial_state
        = (Inl (HTTPException 404 ''Conversation not found''), initial_state)"
  using delete_conversation_result [of example_state "''c1''" 0]
    delete_conversation_result [of initial_state "''c1''"]
  by (simp add: example_defs)

text \<open>Deleting an id without stored history is an error: on the empty store, the deletion
  of \<^verbatim>\<open>c1\<close> raises.\<close>

theorem delete_unknown_id_counterexample:
  "stored_history initial_state ''c1'' = []
   \<and> fst (delete_conversation ''c1'' initial_state)
        = Inl (HTTPException 404 ''Conversation not found'')"
  by (simp add: delete_conversation_def stored_history_def initial_state_def)

subsection \<open>Errors of a cycle\<close>

text \<open>
  C4, as the program has it. When an exception \<open>e\<close> leaves the body of \<^verbatim>\<open>process_query\<close>,
  the caller receives the HTTP error 500 whose detail is \<^verbatim>\<open>Error processing query: \<close>
  followed by the text \<^verbatim>\<open>str(e)\<close> of the exception. In this pipeline the exception is the
  validation error of the response, raised when the answer is \<^verbatim>\<open>None\<close> or the intent is
  neither a string nor \<^verbatim>\<open>None\<close>, and its text is pydantic's rendering of it.
\<close>

theorem process_query_error_detail:
  assumes "fst (process_query_body w r s) = Inl e"
  shows "fst (process_query w r s)
           = Inl (HTTPException 500 (''Error processing query: '' @ str_exception e))
         \<and> str_exception e = validation_error_str w (cycle_answer w r s) (cycle_intent w r s)
         \<and> (cycle_answer w r s = None \<or> cycle_intent w r s = PyOther)"
  using assms
  by (auto simp: process_query_fst process_query_body_eq finish_cycle_def Let_def
      QueryResponse_init_def str_exception_def split: option.splits pyval.splits sum.splits)

theorem process_query_error_detail_witness:
  "fst (process_query_body (silent_world ''saudacao'') example_request initial_state)
     = Inl (ValidationError ''1 validation error for QueryResponse'')
   \<and> fst (process_query (silent_world ''saudacao'') example_request initial_state)
     = Inl (HTTPException 500 ''Error processing query: 1 validation error for QueryResponse'')
   \<and> cycle_answer (silent_world ''saudacao'') example_request initial_state = None"
proof -
  have h: "fst (process_query_body (silent_world ''saudacao'') example_request initial_state)
     = Inl (ValidationError ''1 validation error for QueryResponse'')"
    by (simp add: model_defs example_defs)
  have n: "cycle_answer (silent_world ''saudacao'') example_request initial_state = None"
    by (simp add: model_defs example_defs)
  show ?thesis
    using h n process_query_error_detail [OF h] by (simp add: str_exception_def)
qed

text \<open>The detail shown to the caller carries the text of the exception: when the greeting
  completion returns no content, the exception reads
  \<^verbatim>\<open>1 validation error for QueryResponse\<close>, and so does the detail after its prefix.\<close>

theorem error_detail_counterexample:
  "str_exception (ValidationError ''1 validation error for QueryResponse'')
     = ''1 validation error for QueryResponse''
   \<and> fst (process_query_body (silent_world ''saudacao'') example_request initial_state)
     = Inl (ValidationError ''1 validation error for QueryResponse'')
   \<and> fst (process_query (silent_world ''saudacao'') example_request initial_state)
     = Inl (HTTPException 500 ''Error processing query: 1 validation error for QueryResponse'')"
  by (simp add: model_defs example_defs)

subsection \<open>Labels outside the enumeration\<close>

text \<open>
  C6. The router is to treat a label outside the six as the catch-all label: dispatch to the
  generator of the other branch and report the catch-all label to the caller.

  The program dispatches to that generator, but reports the label as the classifier gave it:
  when the classifier answers \<^verbatim>\<open>{"intent": "greeting"}\<close>, the only generator invoked is the
  one of the other branch, and the response carries the intent \<^verbatim>\<open>greeting\<close>.
\<close>

theorem out_of_set_label_reported:
  "cycle_intent (example_world ''greeting'') example_request initial_state = PyStr ''greeting''
   \<and> generators_invoked (cycle_calls (example_world ''greeting'') example_request initial_state)
        = [Other]
   \<and> fst (process_query (example_world ''greeting'') example_request initial_state)
        = Inr \<lparr>resp_answer = ''ok'', resp_intent = Some ''greeting'',
               resp_conversation_id = Some ''c1''\<rparr>"
  by (simp add: model_defs example_defs)

subsection \<open>Fallbacks\<close>

text \<open>
  C5. In every cycle in which the completion of the dispatched generator raises, the answer
  of the cycle is the static fallback of that generator, and so is the answer of every
  response the cycle returns; a response is returned whenever the answer is a string and the
  intent is a string or \<^verbatim>\<open>None\<close>. The five fallbacks (greeting, attendance, praise, other,
  information) are pairwise different texts.
\<close>

theorem generator_failure_gives_branch_fallback:
  "(GenerateGreeting q n h Raised res \<in> set (cycle_calls w r s) \<longrightarrow>
      cycle_answer w r s = Some greeting_fallback
      \<and> (\<forall>resp. fst (process_query w r s) = Inr resp \<longrightarrow> resp_answer resp = greeting_fallback))
   \<and> (GenerateRagResponse q x h Raised res \<in> set (cycle_calls w r s) \<longrightarrow>
      cycle_answer w r s = Some rag_fallback
      \<and> (\<forall>resp. fst (process_query w r s) = Inr resp \<longrightarrow> resp_answer resp = rag_fallback))
   \<and> (GenerateAttendanceResponse q h Raised res \<in> set (cycle_calls w r s) \<longrightarrow>
      cycle_answer w r s = Some attendance_fallback
      \<and> (\<forall>resp. fst (process_query w r s) = Inr resp \<longrightarrow>
            resp_answer resp = attendance_fallback))
   \<and> (GeneratePraiseResponse q h Raised res \<in> set (cycle_calls w r s) \<longrightarrow>
      cycle_answer w r s = Some praise_fallback
      \<and> (\<forall>resp. fst (process_query w r s) = Inr resp \<longrightarrow> resp_answer resp = praise_fallback))
   \<and> (GenerateOtherResponse q h Raised res \<in> set (cycle_calls w r s) \<longrightarrow>
      cycle_answer w r s = Some other_fallback
      \<and> (\<forall>resp. fst (process_query w r s) = Inr resp \<longrightarrow> resp_answer resp = other_fallback))
   \<and> (cycle_answer w r s \<noteq> None \<and> cycle_intent w r s \<noteq> PyOther \<longrightarrow>
        (\<exists>resp. fst (process_query w r s) = Inr resp))
   \<and> distinct [greeting_fallback, attendance_fallback, praise_fallback, other_fallback,
        rag_fallback]"
proof -
  have ans: "cycle_answer w r s = Some fb \<Longrightarrow>
      \<forall>resp. fst (process_query w r s) = Inr resp \<longrightarrow> resp_answer resp = fb" for fb
    using response_answer [of w r s] by auto
  show ?thesis
    using greeting_raised [of q n h res w r s] rag_raised [of q x h res w r s]
      attendance_raised [of q h res w r s] praise_raised [of q h res w r s]
      other_raised [of q h res w r s] response_returned [of w r s] fallbacks_distinct ans
    by blast
qed

theorem generator_failure_gives_branch_fallback_witness:
  "(GenerateGreeting ''Hola'' [] (Some 0) Raised (Some greeting_fallback)
      \<in> set (cycle_calls (failing_world ''saudacao'') example_request initial_state)
    \<and> fst (process_query (failing_world ''saudacao'') example_request initial_state)
        = Inr \<lparr>resp_answer = greeting_fallback, resp_intent = Some ''saudacao'',
               resp_conversation_id = Some ''c1''\<rparr>)
   \<and> (GenerateRagResponse ''Hola''
        (fst (retrieve_context (failing_world ''informacoes'') (Some ''Hola'') initial_state))
        (Some 0) Raised (Some rag_fallback)
      \<in> set (cycle_calls (failing_world ''informacoes'') example_request initial_state)
    \<and> fst (process_query (failing_world ''informacoes'') example_request initial_state)
        = Inr \<lparr>resp_answer = rag_fallback, resp_intent = Some ''informacoes'',
               resp_conversation_id = Some ''c1''\<rparr>)
   \<and> (GenerateAttendanceResponse ''Hola'' (Some 0) Raised (Some attendance_fallback)
      \<in> set (cycle_calls (failing_world ''reclamacao'') example_request initial_state)
    \<and> fst (process_query (failing_world ''reclamacao'') example_request initial_state)
        = Inr \<lparr>resp_answer = attendance_fallback, resp_intent = Some ''reclamacao'',
               resp_conversation_id = Some ''c1''\<rparr>)
   \<and> (GeneratePraiseResponse ''Hola'' (Some 0) Raised (Some praise_fallback)
      \<in> set (cycle_calls (failing_world ''elogio'') example_request initial_state)
    \<and> fst (process_query (failing_world ''elogio'') example_request initial_state)
        = Inr \<lparr>resp_answer = praise_fallback, resp_intent = Some ''elogio'',
               resp_conversation_id = Some ''c1''\<rparr>)
   \<and> (GenerateOtherResponse ''Hola'' (Some 0) Raised (Some other_fallback)
      \<in> set (cycle_calls (failing_world ''outros'') example_request initial_state)
    \<and> fst (process_query (failing_world ''outros'') example_request initial_state)
        = Inr \<lparr>resp_answer = other_fallback, resp_intent = Some ''outros'',
               resp_conversation_id = Some ''c1''\<rparr>)"
proof -
  have g: "GenerateGreeting ''Hola'' [] (Some 0) Raised (Some greeting_fallback)
      \<in> set (cycle_calls (failing_world ''saudacao'') example_request initial_state)"
    by (simp add: model_defs example_defs)
  have i: "GenerateRagResponse ''Hola''
        (fst (retrieve_context (failing_world ''informacoes'') (Some ''Hola'') initial_state))
        (Some 0) Raised (Some rag_fallback)
      \<in> set (cycle_calls (failing_world ''informacoes'') example_request initial_state)"
    by (simp add: model_defs example_defs)
  have a: "GenerateAttendanceResponse ''Hola'' (Some 0) Raised (Some attendance_fallback)
      \<in> set (cycle_calls (failing_world ''reclamacao'') example_request initial_state)"
    by (simp add: model_defs example_defs)
  have p: "GeneratePraiseResponse ''Hola'' (Some 0) Raised (Some praise_fallback)
      \<in> set (cycle_calls (failing_world ''elogio'') example_request initial_state)"
    by (simp add: model_defs example_defs)
  have o: "GenerateOtherResponse ''Hola'' (Some 0) Raised (Some other_fallback)
      \<in> set (cycle_calls (failing_world ''outros'') example_request initial_state)"
    by (simp add: model_defs example_defs)
  have c: "cycle_intent (failing_world l) example_request initial_state = PyStr l" for l
    by (simp add: model_defs example_defs)
  have rid: "resolve_conversation_id (failing_world l) example_request = ''c1''" for l
    by (simp add: resolve_conversation_id_def example_defs)
  have ret: "cycle_answer w r s = Some fb \<Longrightarrow> cycle_intent w r s = PyStr l \<Longrightarrow>
      fst (process_query w r s) = Inr \<lparr>resp_answer = fb, resp_intent = Some l,
        resp_conversation_id = Some (resolve_conversation_id w r)\<rparr>" for w r s fb l
    by (simp add: process_query_fst QueryResponse_init_def)
  have G: "cycle_answer (failing_world ''saudacao'') example_request initial_state
      = Some greeting_fallback"
    using g generator_failure_gives_branch_fallback [of "''Hola''" "[]" "Some 0"
        "Some greeting_fallback" "failing_world ''saudacao''" example_request initial_state]
    by blast
  have I: "cycle_answer (failing_world ''informacoes'') example_request initial_state
      = Some rag_fallback"
    using i generator_failure_gives_branch_fallback [of "''Hola''" _ "Some 0"
        "Some rag_fallback" "failing_world ''informacoes''" example_request initial_state
        "fst (retrieve_context (failing_world ''informacoes'') (Some ''Hola'') initial_state)"]
    by blast
  have A: "cycle_answer (failing_world ''reclamacao'') example_request initial_state
      = Some attendance_fallback"
    using a generator_failure_gives_branch_fallback [of "''Hola''" _ "Some 0"
        "Some attendance_fallback" "failing_world ''reclamacao''" example_request initial_state]
    by blast
  have P: "cycle_answer (failing_world ''elogio'') example_request initial_state
      = Some praise_fallback"
    using p generator_failure_gives_branch_fallback [of "''Hola''" _ "Some 0"
        "Some praise_fallback" "failing_world ''elogio''" example_request initial_state]
    by blast
  have O: "cycle_answer (failing_world ''outros'') example_request initial_state
      = Some other_fallback"
    using o generator_failure_gives_branch_fallback [of "''Hola''" _ "Some 0"
        "Some other_fallback" "failing_world ''outros''" example_request initial_state]
    by blast
  show ?thesis
    using g i a p o ret [OF G c] ret [OF I c] ret [OF A c] ret [OF P c] ret [OF O c]
    by (simp only: rid simp_thms)
qed

subsection \<open>Routing table\<close>

text \<open>
  C2. Whatever the query: when the classifier returns one of the six labels, the cycle
  invokes exactly one generator, once, and it is the generator of that label's branch:
  greeting for \<^verbatim>\<open>saudacao\<close>, information for \<^verbatim>\<open>informacoes\<close>, attendance for
  \<^verbatim>\<open>atendimento\<close> and for \<^verbatim>\<open>reclamacao\<close> (one branch of the routing table), praise for
  \<^verbatim>\<open>elogio\<close>, other for \<^verbatim>\<open>outros\<close>.
\<close>

theorem route_dispatches_to_named_generator:
  "(cycle_intent w r s = PyStr ''saudacao'' \<longrightarrow>
      generators_invoked (cycle_calls w r s) = [Greeting])
   \<and> (cycle_intent w r s = PyStr ''informacoes'' \<longrightarrow>
      generators_invoked (cycle_calls w r s) = [Information])
   \<and> (cycle_intent w r s = PyStr ''atendimento'' \<longrightarrow>
      generators_invoked (cycle_calls w r s) = [Attendance])
   \<and> (cycle_intent w r s = PyStr ''reclamacao'' \<longrightarrow>
      generators_invoked (cycle_calls w r s) = [Attendance])
   \<and> (cycle_intent w r s = PyStr ''elogio'' \<longrightarrow>
      generators_invoked (cycle_calls w r s) = [Praise])
   \<and> (cycle_intent w r s = PyStr ''outros'' \<longrightarrow>
      generators_invoked (cycle_calls w r s) = [Other])"
  by (simp add: cycle_calls_eq cycle_route_calls generators_invoked_def Let_def)

theorem route_dispatches_to_named_generator_witness:
  "(cycle_intent (example_world ''saudacao'') example_request example_state = PyStr ''saudacao''
    \<and> generators_invoked (cycle_calls (example_world ''saudacao'') example_request example_state)
        = [Greeting])
   \<and> (cycle_intent (example_world ''informacoes'') example_request example_state
        = PyStr ''informacoes''
    \<and> generators_invoked (cycle_calls (example_world ''informacoes'') example_request
          example_state) = [Information])
   \<and> (cycle_intent (example_world ''atendimento'') example_request example_state
        = PyStr ''atendimento''
    \<and> generators_invoked (cycle_calls (example_world ''atendimento'') example_request
          example_state) = [Attendance])
   \<and> (cycle_intent (example_world ''reclamacao'') example_request example_state
        = PyStr ''reclamacao''
    \<and> generators_invoked (cycle_calls (example_world ''reclamacao'') example_request
          example_state) = [Attendance])
   \<and> (cycle_intent (example_world ''elogio'') example_request example_state = PyStr ''elogio''
    \<and> generators_invoked (cycle_calls (example_world ''elogio'') example_request example_state)
        = [Praise])
   \<and> (cycle_intent (example_world ''outros'') example_request example_state = PyStr ''outros''
    \<and> generators_invoked (cycle_calls (example_world ''outros'') example_request example_state)
        = [Other])"
proof -
  have c: "cycle_intent (example_world l) example_request example_state = PyStr l" for l
    by (simp add: model_defs example_defs)
  show ?thesis
    using route_dispatches_to_named_generator [of "example_world ''saudacao''" example_request
        example_state]
      route_dispatches_to_named_generator [of "example_world ''informacoes''" example_request
        example_state]
      route_dispatches_to_named_generator [of "example_world ''atendimento''" example_request
        example_state]
      route_dispatches_to_named_generator [of "example_world ''reclamacao''" example_request
        example_state]
      route_dispatches_to_named_generator [of "example_world ''elogio''" example_request
        example_state]
      route_dispatches_to_named_generator [of "example_world ''outros''" example_request
        example_state]
    by (simp add: c)
qed

subsection \<open>Notification\<close>

text \<open>
  C7. When the intent is \<^verbatim>\<open>atendimento\<close> or \<^verbatim>\<open>reclamacao\<close>, the cycle makes exactly one
  notification call, with the conversation id, as its last call and right after the
  attendance generator has returned the answer of the cycle; for every other intent it makes
  none. Whether the notification succeeds changes neither the response (or error) of the
  cycle, nor its answer, nor the stored histories.
\<close>

theorem notifier_fired_for_service_intents:
  "(cycle_intent w r s = PyStr ''atendimento'' \<or> cycle_intent w r s = PyStr ''reclamacao'' \<longrightarrow>
      (\<exists>out. cycle_calls w r s =
         [GetUserByPhone (req_phone r) (cycle_user_data w r s),
          ClassifyIntent (req_query r) (Some (cycle_history w r s)) (cycle_intent w r s),
          GenerateAttendanceResponse (req_query r) (Some (cycle_history w r s)) out
            (cycle_answer w r s),
          NotifyChatwootLabel (resolve_conversation_id w r)
            (chatwoot_label_ok w (resolve_conversation_id w r))])
      \<and> length (filter is_notification (cycle_calls w r s)) = 1)
   \<and> (cycle_intent w r s \<noteq> PyStr ''atendimento'' \<and> cycle_intent w r s \<noteq> PyStr ''reclamacao'' \<longrightarrow>
        filter is_notification (cycle_calls w r s) = [])
   \<and> fst (process_query (w\<lparr>chatwoot_label_ok := ok\<rparr>) r s) = fst (process_query w r s)
   \<and> cycle_answer (w\<lparr>chatwoot_label_ok := ok\<rparr>) r s = cycle_answer w r s
   \<and> heap (snd (process_query (w\<lparr>chatwoot_label_ok := ok\<rparr>) r s))
        = heap (snd (process_query w r s))
   \<and> conversations (snd (process_query (w\<lparr>chatwoot_label_ok := ok\<rparr>) r s))
        = conversations (snd (process_query w r s))"
proof -
  have "fst (process_query (w\<lparr>chatwoot_label_ok := ok\<rparr>) r s) = fst (process_query w r s)"
    by (simp add: process_query_fst cycle_notify_indep resolve_notify_indep
        QueryResponse_init_def split: option.splits pyval.splits)
  moreover have "heap (snd (process_query (w\<lparr>chatwoot_label_ok := ok\<rparr>) r s))
        = heap (snd (process_query w r s))"
    by (simp add: process_query_sel cycle_route_state_sel cycle_notify_indep)
  moreover have "conversations (snd (process_query (w\<lparr>chatwoot_label_ok := ok\<rparr>) r s))
        = conversations (snd (process_query w r s))"
    by (simp add: process_query_sel cycle_notify_indep resolve_notify_indep)
  ultimately show ?thesis
    by (simp add: cycle_calls_eq cycle_route_calls Let_def cycle_notify_indep)
qed

theorem notifier_fired_for_service_intents_witness:
  "(cycle_intent (example_world ''atendimento'') example_request example_state
      = PyStr ''atendimento''
    \<and> length (filter is_notification
          (cycle_calls (example_world ''atendimento'') example_request example_state)) = 1)
   \<and> (cycle_intent (example_world ''elogio'') example_request example_state \<noteq> PyStr ''atendimento''
    \<and> cycle_intent (example_world ''elogio'') example_request example_state \<noteq> PyStr ''reclamacao''
    \<and> filter is_notification
          (cycle_calls (example_world ''elogio'') example_request example_state) = [])
   \<and> fst (process_query ((example_world ''atendimento'')\<lparr>chatwoot_label_ok := (\<lambda>_. False)\<rparr>)
            example_request example_state)
      = fst (process_query (example_world ''atendimento'') example_request example_state)"
  using notifier_fired_for_service_intents [of "example_world ''atendimento''" example_request
      example_state "\<lambda>_. False"]
    notifier_fired_for_service_intents [of "example_world ''elogio''" example_request
      example_state "\<lambda>_. False"]
  by (simp add: example_world_facts)

subsection \<open>Information flow\<close>



subsection \<open>The shared history object\<close>

text \<open>
  C10. In a cycle whose conversation id has a non-empty stored history, the list
  \<^verbatim>\<open>history\<close> of the cycle is the very list object the store holds, and that same object
  is handed to the classifier and to the dispatched generator (and to the reformulator in
  the information branch). Each of them appends the user turn to it: one copy after the
  classification, two after the routing (three in the information branch), and then the
  router appends the user turn and the assistant turn. The stored history so grows by four
  entries, five in the information branch, with the user turn repeated. In a cycle whose
  conversation id has no stored history, or an empty one, the stored history afterwards is
  the user turn and the assistant turn: it grows by two.
\<close>

theorem shared_history_growth:
  "(wf_state s \<and> conversations s c = Some a \<and> heap s a \<noteq> []
      \<and> resolve_conversation_id w r = c \<longrightarrow>
      cycle_history w r s = a
      \<and> conversations (snd (process_query w r s)) c = Some a
      \<and> concat (map passed_history (cycle_calls w r s)) =
          (if cycle_intent w r s = PyStr ''informacoes'' then [a, a, a] else [a, a])
      \<and> heap (cycle_begin_state w r s) a = heap s a @ [user_message (req_query r)]
      \<and> heap (cycle_route_state w r s) a = heap s a @
          (if cycle_intent w r s = PyStr ''informacoes''
           then [user_message (req_query r), user_message (req_query r),
                 user_message (req_query r)]
           else [user_message (req_query r), user_message (req_query r)])
      \<and> stored_history (snd (process_query w r s)) c = stored_history s c @
          (if cycle_intent w r s = PyStr ''informacoes''
           then [user_message (req_query r), user_message (req_query r),
                 user_message (req_query r), user_message (req_query r),
                 assistant_message (cycle_answer w r s)]
           else [user_message (req_query r), user_message (req_query r),
                 user_message (req_query r), assistant_message (cycle_answer w r s)])
      \<and> length (stored_history (snd (process_query w r s)) c) = length (stored_history s c) +
          (if cycle_intent w r s = PyStr ''informacoes'' then 5 else 4))
   \<and> (wf_state s \<and> stored_history s c = [] \<and> resolve_conversation_id w r = c \<longrightarrow>
        stored_history (snd (process_query w r s)) c =
          [user_message (req_query r), assistant_message (cycle_answer w r s)]
        \<and> length (stored_history (snd (process_query w r s)) c) = length (stored_history s c) + 2)"
proof (intro conjI impI)
  assume a: "wf_state s \<and> stored_history s c = [] \<and> resolve_conversation_id w r = c"
  then show "stored_history (snd (process_query w r s)) c =
          [user_message (req_query r), assistant_message (cycle_answer w r s)]"
    by (simp add: first_cycle_heap)
  from a show "length (stored_history (snd (process_query w r s)) c)
      = length (stored_history s c) + 2"
    by (simp add: first_cycle_heap)
next
  assume a: "wf_state s \<and> conversations s c = Some a \<and> heap s a \<noteq> []
      \<and> resolve_conversation_id w r = c"
  then have w: "wf_state s" and c: "conversations s c = Some a" and n: "heap s a \<noteq> []"
    and i: "resolve_conversation_id w r = c" by simp_all
  note H = stored_cycle_heap [OF w c n i]
  show h: "cycle_history w r s = a" by (rule H(1))
  show c': "conversations (snd (process_query w r s)) c = Some a"
    using i h by (simp add: process_query_sel)
  show "concat (map passed_history (cycle_calls w r s)) =
          (if cycle_intent w r s = PyStr ''informacoes'' then [a, a, a] else [a, a])"
    using h by (simp add: cycle_passed_history)
  show "heap (cycle_begin_state w r s) a = heap s a @ [user_message (req_query r)]"
    by (rule H(2))
  show "heap (cycle_route_state w r s) a = heap s a @
          (if cycle_intent w r s = PyStr ''informacoes''
           then [user_message (req_query r), user_message (req_query r),
                 user_message (req_query r)]
           else [user_message (req_query r), user_message (req_query r)])"
    by (rule H(3))
  show st: "stored_history (snd (process_query w r s)) c = stored_history s c @
          (if cycle_intent w r s = PyStr ''informacoes''
           then [user_message (req_query r), user_message (req_query r),
                 user_message (req_query r), user_message (req_query r),
                 assistant_message (cycle_answer w r s)]
           else [user_message (req_query r), user_message (req_query r),
                 user_message (req_query r), assistant_message (cycle_answer w r s)])"
    using H(4) c c' by (simp add: stored_history_def)
  show "length (stored_history (snd (process_query w r s)) c) = length (stored_history s c) +
          (if cycle_intent w r s = PyStr ''informacoes'' then 5 else 4)"
    by (simp add: st)
qed

theorem shared_history_growth_witness:
  "(wf_state example_state \<and> conversations example_state ''c1'' = Some 0
      \<and> heap example_state 0 \<noteq> []
      \<and> resolve_conversation_id (example_world ''saudacao'') example_request = ''c1'')
   \<and> stored_history (snd (process_query (example_world ''saudacao'') example_request
        example_state)) ''c1''
      = [user_message ''Hola'', assistant_message (Some ''ok''),
         user_message ''Hola'', user_message ''Hola'', user_message ''Hola'',
         assistant_message (Some ''ok'')]
   \<and> stored_history (snd (process_query (example_world ''informacoes'') example_request
        example_state)) ''c1''
      = [user_message ''Hola'', assistant_message (Some ''ok''),
         user_message ''Hola'', user_message ''Hola'', user_message ''Hola'',
         user_message ''Hola'', assistant_message (Some ''ok'')]
   \<and> (wf_state initial_state \<and> stored_history initial_state ''c1'' = [])
   \<and> stored_history (snd (process_query (example_world ''saudacao'') example_request
        initial_state)) ''c1''
      = [user_message ''Hola'', assistant_message (Some ''ok'')]"
  using shared_history_growth [of example_state "''c1''" 0 "example_world ''saudacao''"
      example_request]
    shared_history_growth [of example_state "''c1''" 0 "example_world ''informacoes''"
      example_request]
    shared_history_growth [of initial_state "''c1''" 0 "example_world ''saudacao''"
      example_request]
  by (simp add: example_state_facts example_world_facts example_answers)

subsection \<open>Conversation id\<close>




end
